theory Spec2Isabelle
  imports Main "HOL-Library.Word" "HOL-Library.FSet"
begin

section \<open>Hardware buffer manager (CmHardwareBufferManager.h)\<close>

text \<open>
  The header declares two classes. \<open>HardwareBufferManagerBase\<close> holds three registries
  (sets of raw pointers) and declares the factory, destroy and notification methods;
  their bodies are not part of the header. \<open>HardwareBufferManager\<close> derives from it,
  holds a pointer \<open>mImpl\<close> to a backend \<open>HardwareBufferManagerBase\<close> and defines seven
  inline methods, each a single forwarding call through \<open>mImpl\<close>.
\<close>

subsection \<open>Values\<close>

text \<open>
  A pointer is the address of an object. \<open>UINT32\<close> is a 32-bit machine word.
  \<open>HardwareBuffer::Usage\<close> is an enumeration whose members are or-ed together
  ("one or more members", line 105), so a usage value is an integer. The index type
  is "either 16- or 32-bit" (line 117); its enumerators are declared in
  \<open>CmHardwareIndexBuffer.h\<close>. A C++ exception leaving a method is an \<open>error\<close> value;
  the spec knows two kinds, allocation failures and invariant violations.
\<close>

type_synonym ptr = nat

type_synonym UINT32 = "32 word"

type_synonym Usage = int

datatype IndexType = IT_16BIT | IT_32BIT

datatype error = AllocationError | InvariantViolation

subsection \<open>The state of \<open>HardwareBufferManagerBase\<close>\<close>

text \<open>
  The data members of the base class, in declaration order (lines 68, 69, 72). Each is
  a \<open>set<T*>::type\<close>: a finite set of pointers.
\<close>

record HardwareBufferManagerBase =
  mVertexBuffers :: "ptr fset"
  mIndexBuffers :: "ptr fset"
  mVertexBufferBindings :: "ptr fset"

subsection \<open>The backend behind \<open>mImpl\<close>\<close>

text \<open>
  \<open>mImpl\<close> points to an instance of some subclass of \<open>HardwareBufferManagerBase\<close>.
  Five of the seven forwarded methods are virtual (two of them pure), so what a call
  through \<open>mImpl\<close> does is decided by the subclass; the two notification methods are not
  virtual, and their bodies are not in the header. What each of the seven does on the
  backend object is therefore a parameter: its effect on the backend object's state
  \<open>'b\<close>, that is the value returned (or the exception thrown) and the state afterwards.
\<close>

record 'b Backend =
  impl_createVertexBuffer :: "UINT32 \<Rightarrow> UINT32 \<Rightarrow> Usage \<Rightarrow> bool \<Rightarrow> 'b \<Rightarrow> (error + ptr) \<times> 'b"
  impl_createIndexBuffer :: "IndexType \<Rightarrow> UINT32 \<Rightarrow> Usage \<Rightarrow> 'b \<Rightarrow> (error + ptr) \<times> 'b"
  impl_createVertexDeclaration :: "'b \<Rightarrow> (error + ptr) \<times> 'b"
  impl_createVertexBufferBinding :: "'b \<Rightarrow> (error + ptr) \<times> 'b"
  impl_destroyVertexBufferBinding :: "ptr \<Rightarrow> 'b \<Rightarrow> (error + unit) \<times> 'b"
  impl_notifyVertexBufferDestroyed :: "ptr \<Rightarrow> 'b \<Rightarrow> (error + unit) \<times> 'b"
  impl_notifyIndexBufferDestroyed :: "ptr \<Rightarrow> 'b \<Rightarrow> (error + unit) \<times> 'b"

subsection \<open>The wrapper \<open>HardwareBufferManager\<close>\<close>

text \<open>
  The wrapper inherits the three registries of the base class and adds \<open>mImpl\<close>
  (line 144). It owns the backend object, so the state of the pointee is carried in
  the field.
\<close>

record 'b HardwareBufferManager = HardwareBufferManagerBase +
  mImpl :: 'b

text \<open>
  The seven inline methods (lines 150 to 185). Each calls the same method on \<open>mImpl\<close>
  with the same arguments and returns what it returns; the only state that changes is
  the backend object's.
\<close>

definition HardwareBufferManager_createVertexBuffer ::
  "'b Backend \<Rightarrow> UINT32 \<Rightarrow> UINT32 \<Rightarrow> Usage \<Rightarrow> bool \<Rightarrow> 'b HardwareBufferManager
    \<Rightarrow> (error + ptr) \<times> 'b HardwareBufferManager" where
  "HardwareBufferManager_createVertexBuffer B vertexSize numVerts usage streamOut this =
     (case impl_createVertexBuffer B vertexSize numVerts usage streamOut (mImpl this) of
        (r, impl) \<Rightarrow> (r, this\<lparr>mImpl := impl\<rparr>))"

definition HardwareBufferManager_createIndexBuffer ::
  "'b Backend \<Rightarrow> IndexType \<Rightarrow> UINT32 \<Rightarrow> Usage \<Rightarrow> 'b HardwareBufferManager
    \<Rightarrow> (error + ptr) \<times> 'b HardwareBufferManager" where
  "HardwareBufferManager_createIndexBuffer B itype numIndexes usage this =
     (case impl_createIndexBuffer B itype numIndexes usage (mImpl this) of
        (r, impl) \<Rightarrow> (r, this\<lparr>mImpl := impl\<rparr>))"

definition HardwareBufferManager_createVertexDeclaration ::
  "'b Backend \<Rightarrow> 'b HardwareBufferManager \<Rightarrow> (error + ptr) \<times> 'b HardwareBufferManager" where
  "HardwareBufferManager_createVertexDeclaration B this =
     (case impl_createVertexDeclaration B (mImpl this) of
        (r, impl) \<Rightarrow> (r, this\<lparr>mImpl := impl\<rparr>))"

definition HardwareBufferManager_createVertexBufferBinding ::
  "'b Backend \<Rightarrow> 'b HardwareBufferManager \<Rightarrow> (error + ptr) \<times> 'b HardwareBufferManager" where
  "HardwareBufferManager_createVertexBufferBinding B this =
     (case impl_createVertexBufferBinding B (mImpl this) of
        (r, impl) \<Rightarrow> (r, this\<lparr>mImpl := impl\<rparr>))"

definition HardwareBufferManager_destroyVertexBufferBinding ::
  "'b Backend \<Rightarrow> ptr \<Rightarrow> 'b HardwareBufferManager \<Rightarrow> (error + unit) \<times> 'b HardwareBufferManager" where
  "HardwareBufferManager_destroyVertexBufferBinding B binding this =
     (case impl_destroyVertexBufferBinding B binding (mImpl this) of
        (r, impl) \<Rightarrow> (r, this\<lparr>mImpl := impl\<rparr>))"

definition HardwareBufferManager_notifyVertexBufferDestroyed ::
  "'b Backend \<Rightarrow> ptr \<Rightarrow> 'b HardwareBufferManager \<Rightarrow> (error + unit) \<times> 'b HardwareBufferManager" where
  "HardwareBufferManager_notifyVertexBufferDestroyed B buf this =
     (case impl_notifyVertexBufferDestroyed B buf (mImpl this) of
        (r, impl) \<Rightarrow> (r, this\<lparr>mImpl := impl\<rparr>))"

definition HardwareBufferManager_notifyIndexBufferDestroyed ::
  "'b Backend \<Rightarrow> ptr \<Rightarrow> 'b HardwareBufferManager \<Rightarrow> (error + unit) \<times> 'b HardwareBufferManager" where
  "HardwareBufferManager_notifyIndexBufferDestroyed B buf this =
     (case impl_notifyIndexBufferDestroyed B buf (mImpl this) of
        (r, impl) \<Rightarrow> (r, this\<lparr>mImpl := impl\<rparr>))"

subsection \<open>Calls and their results\<close>

text \<open>
  A call names a public operation and its argument list. \<open>createVertexBuffer\<close>
  declares a default for \<open>streamOut\<close>, in the base class (line 112) and again in the
  wrapper (line 150), so its last argument may be left out: \<open>None\<close> is the
  three-argument call, which takes the default of the class it is made on.
\<close>

datatype Call =
    CreateVertexBuffer UINT32 UINT32 Usage "bool option"
  | CreateIndexBuffer IndexType UINT32 Usage
  | CreateVertexDeclaration
  | CreateVertexBufferBinding
  | DestroyVertexBufferBinding ptr
  | NotifyVertexBufferDestroyed ptr
  | NotifyIndexBufferDestroyed ptr

datatype Ret = Handle ptr | Void

definition HardwareBufferManagerBase_streamOut_default :: bool where
  "HardwareBufferManagerBase_streamOut_default = False"

definition HardwareBufferManager_streamOut_default :: bool where
  "HardwareBufferManager_streamOut_default = False"

definition or_default :: "bool \<Rightarrow> bool option \<Rightarrow> bool" where
  "or_default d so = (case so of None \<Rightarrow> d | Some b \<Rightarrow> b)"

definition returned :: "('a \<Rightarrow> Ret) \<Rightarrow> (error + 'a) \<times> 's \<Rightarrow> (error + Ret) \<times> 's" where
  "returned f rs = (case rs of (r, s) \<Rightarrow> (case r of Inl e \<Rightarrow> Inl e | Inr v \<Rightarrow> Inr (f v), s))"

text \<open>The call made on the backend object itself.\<close>

fun invoke_Base :: "'b Backend \<Rightarrow> Call \<Rightarrow> 'b \<Rightarrow> (error + Ret) \<times> 'b" where
  "invoke_Base B (CreateVertexBuffer vertexSize numVerts usage so) b =
     returned Handle
       (impl_createVertexBuffer B vertexSize numVerts usage
          (or_default HardwareBufferManagerBase_streamOut_default so) b)"
| "invoke_Base B (CreateIndexBuffer itype numIndexes usage) b =
     returned Handle (impl_createIndexBuffer B itype numIndexes usage b)"
| "invoke_Base B CreateVertexDeclaration b =
     returned Handle (impl_createVertexDeclaration B b)"
| "invoke_Base B CreateVertexBufferBinding b =
     returned Handle (impl_createVertexBufferBinding B b)"
| "invoke_Base B (DestroyVertexBufferBinding binding) b =
     returned (\<lambda>_. Void) (impl_destroyVertexBufferBinding B binding b)"
| "invoke_Base B (NotifyVertexBufferDestroyed buf) b =
     returned (\<lambda>_. Void) (impl_notifyVertexBufferDestroyed B buf b)"
| "invoke_Base B (NotifyIndexBufferDestroyed buf) b =
     returned (\<lambda>_. Void) (impl_notifyIndexBufferDestroyed B buf b)"

text \<open>
  The call made on the wrapper, through its own methods. (The two notification methods
  are not virtual: only a call on the wrapper as such reaches the wrapper's methods.)
\<close>

fun invoke_HardwareBufferManager ::
  "'b Backend \<Rightarrow> Call \<Rightarrow> 'b HardwareBufferManager \<Rightarrow> (error + Ret) \<times> 'b HardwareBufferManager" where
  "invoke_HardwareBufferManager B (CreateVertexBuffer vertexSize numVerts usage so) w =
     returned Handle
       (HardwareBufferManager_createVertexBuffer B vertexSize numVerts usage
          (or_default HardwareBufferManager_streamOut_default so) w)"
| "invoke_HardwareBufferManager B (CreateIndexBuffer itype numIndexes usage) w =
     returned Handle (HardwareBufferManager_createIndexBuffer B itype numIndexes usage w)"
| "invoke_HardwareBufferManager B CreateVertexDeclaration w =
     returned Handle (HardwareBufferManager_createVertexDeclaration B w)"
| "invoke_HardwareBufferManager B CreateVertexBufferBinding w =
     returned Handle (HardwareBufferManager_createVertexBufferBinding B w)"
| "invoke_HardwareBufferManager B (DestroyVertexBufferBinding binding) w =
     returned (\<lambda>_. Void) (HardwareBufferManager_destroyVertexBufferBinding B binding w)"
| "invoke_HardwareBufferManager B (NotifyVertexBufferDestroyed buf) w =
     returned (\<lambda>_. Void) (HardwareBufferManager_notifyVertexBufferDestroyed B buf w)"
| "invoke_HardwareBufferManager B (NotifyIndexBufferDestroyed buf) w =
     returned (\<lambda>_. Void) (HardwareBufferManager_notifyIndexBufferDestroyed B buf w)"

text \<open>A sequence of calls on the wrapper: the results in order and the final state.\<close>

fun run_HardwareBufferManager ::
  "'b Backend \<Rightarrow> Call list \<Rightarrow> 'b HardwareBufferManager
    \<Rightarrow> (error + Ret) list \<times> 'b HardwareBufferManager" where
  "run_HardwareBufferManager B [] w = ([], w)"
| "run_HardwareBufferManager B (c # cs) w =
     (case invoke_HardwareBufferManager B c w of
        (r, w') \<Rightarrow> (case run_HardwareBufferManager B cs w' of (rs, w'') \<Rightarrow> (r # rs, w'')))"

fun run_Base :: "'b Backend \<Rightarrow> Call list \<Rightarrow> 'b \<Rightarrow> (error + Ret) list \<times> 'b" where
  "run_Base B [] b = ([], b)"
| "run_Base B (c # cs) b =
     (case invoke_Base B c b of
        (r, b') \<Rightarrow> (case run_Base B cs b' of (rs, b'') \<Rightarrow> (r # rs, b'')))"

subsection \<open>The class declarations\<close>

text \<open>
  The member declarations of a class body that concern its data, in the order the
  header writes them: \<open>typedef set<K*>::type N\<close> is \<open>Typedef N K\<close>, and a data member
  \<open>T m\<close> is \<open>DataMember T m\<close>. Methods carry no state and are left out.
\<close>

datatype ResourceKind =
  HardwareVertexBuffer | HardwareIndexBuffer | HardwareConstantBuffer | VertexBufferBinding

datatype MemberDecl = Typedef string ResourceKind | DataMember string string

text \<open>Lines 65 to 72 of the header.\<close>

definition HardwareBufferManagerBase_decls :: "MemberDecl list" where
  "HardwareBufferManagerBase_decls =
     [Typedef ''VertexBufferList'' HardwareVertexBuffer,
      Typedef ''IndexBufferList'' HardwareIndexBuffer,
      Typedef ''ConstantBufferList'' HardwareConstantBuffer,
      DataMember ''VertexBufferList'' ''mVertexBuffers'',
      DataMember ''IndexBufferList'' ''mIndexBuffers'',
      Typedef ''VertexBufferBindingList'' VertexBufferBinding,
      DataMember ''VertexBufferBindingList'' ''mVertexBufferBindings'']"

text \<open>Line 144 of the header.\<close>

definition HardwareBufferManager_decls :: "MemberDecl list" where
  "HardwareBufferManager_decls = [DataMember ''HardwareBufferManagerBase*'' ''mImpl'']"

text \<open>
  The names a class gives to the type "set of pointers to \<open>k\<close>", and the data members
  declared with one of these names: the registries of kind \<open>k\<close>.
\<close>

fun set_types :: "MemberDecl list \<Rightarrow> ResourceKind \<Rightarrow> string list" where
  "set_types [] k = []"
| "set_types (Typedef n k' # ds) k = (if k' = k then n # set_types ds k else set_types ds k)"
| "set_types (DataMember t m # ds) k = set_types ds k"

fun members_of_types :: "MemberDecl list \<Rightarrow> string list \<Rightarrow> string list" where
  "members_of_types [] ts = []"
| "members_of_types (Typedef n k # ds) ts = members_of_types ds ts"
| "members_of_types (DataMember t m # ds) ts =
     (if t \<in> set ts then m # members_of_types ds ts else members_of_types ds ts)"

definition registries :: "MemberDecl list \<Rightarrow> ResourceKind \<Rightarrow> string list" where
  "registries ds k = members_of_types ds (set_types ds k)"

fun data_members :: "MemberDecl list \<Rightarrow> string list" where
  "data_members [] = []"
| "data_members (Typedef n k # ds) = data_members ds"
| "data_members (DataMember t m # ds) = m # data_members ds"

text \<open>
  A class: its name, its direct base classes in the order of the base list, and its
  member declarations.
\<close>

datatype Class = Class string "Class list" "MemberDecl list"

definition HardwareBufferManagerBase_class :: Class where
  "HardwareBufferManagerBase_class =
     Class ''HardwareBufferManagerBase'' [] HardwareBufferManagerBase_decls"

text \<open>
  \<open>Module<HardwareBufferManager>\<close> comes from \<open>CmModule.h\<close>, which is not part of the
  sources: its bases and members are parameters.
\<close>

definition Module_class :: "Class list \<Rightarrow> MemberDecl list \<Rightarrow> Class" where
  "Module_class bs ds = Class ''Module<HardwareBufferManager>'' bs ds"

text \<open>
  Line 141: \<open>class HardwareBufferManager : public HardwareBufferManagerBase,
  public Module<HardwareBufferManager>\<close>.
\<close>

definition HardwareBufferManager_class :: "Class list \<Rightarrow> MemberDecl list \<Rightarrow> Class" where
  "HardwareBufferManager_class bs ds =
     Class ''HardwareBufferManager'' [HardwareBufferManagerBase_class, Module_class bs ds]
       HardwareBufferManager_decls"

text \<open>
  A concrete implementation "should provide a subclass of HardwareBufferManagerBase"
  (class comment, lines 50 to 51): a class with that single base and members of its own.
\<close>

definition Backend_class :: "string \<Rightarrow> MemberDecl list \<Rightarrow> Class" where
  "Backend_class n ds = Class n [HardwareBufferManagerBase_class] ds"

text \<open>
  The teardown of an object, as C++ orders it. The parts of an object are the data
  members and the constructor and destructor bodies of its classes. An object is
  initialised base classes first, in the order of the base list, then its data members
  in declaration order, then the constructor body runs; it is destroyed in exactly the
  reverse order: destructor body, data members, base classes. A step of the teardown is
  the run of a destructor body or the destruction of one data member.
\<close>

datatype Step = Body string | Member string string

fun construction_order :: "Class \<Rightarrow> Step list" where
  "construction_order (Class n bs ds) =
     concat (map construction_order bs) @ map (Member n) (data_members ds) @ [Body n]"

definition destruction_order :: "Class \<Rightarrow> Step list" where
  "destruction_order c = rev (construction_order c)"

text \<open>The steps that destroy a registry of the base class.\<close>

definition registry_steps :: "Step list" where
  "registry_steps =
     map (Member ''HardwareBufferManagerBase'')
       (concat (map (registries HardwareBufferManagerBase_decls)
          [HardwareVertexBuffer, HardwareIndexBuffer, HardwareConstantBuffer, VertexBufferBinding]))"

text \<open>
  A teardown is safe for the registries when, at every step that is not itself the
  destruction of a registry (a destructor body, the destruction of any other member:
  the steps that can call back into the manager), every registry is still to be
  destroyed.
\<close>

fun registries_outlive :: "Step list \<Rightarrow> bool" where
  "registries_outlive [] = True"
| "registries_outlive (e # es) =
     ((e \<in> set registry_steps \<or> (\<forall>r \<in> set registry_steps. r \<in> set es)) \<and> registries_outlive es)"

subsection \<open>Vertex buffer bindings in the base class\<close>

text \<open>
  Modelled from the spec: the bodies of \<open>HardwareBufferManagerBase\<close>'s methods are in a
  source file that is not part of the sources; the header declares them (lines 75 to 87
  and 130 to 132). The state they work on is the manager object together with the
  \<open>VertexBufferBinding\<close> objects that exist on the heap: the spec says bindings are
  "exclusively owned and destroyed by the manager that created" them.
\<close>

record ManagerState =
  manager :: HardwareBufferManagerBase
  liveBindings :: "ptr fset"

text \<open>
  Modelled from the spec: \<open>HardwareBufferManagerBase()\<close> (line 86), body absent.
  "No valid operations before construction": the manager starts with empty registries.
\<close>

definition HardwareBufferManagerBase_ctor :: "ptr fset \<Rightarrow> ManagerState" where
  "HardwareBufferManagerBase_ctor heap =
     \<lparr>manager = \<lparr>mVertexBuffers = {||}, mIndexBuffers = {||}, mVertexBufferBindings = {||}\<rparr>,
      liveBindings = heap\<rparr>"

text \<open>
  Modelled from the spec: \<open>createVertexBufferBindingImpl\<close> (line 81), body absent:
  "creates a new VertexBufferBinding". The address \<open>p\<close> is the allocator's answer; C++
  gives a new object an address that no existing object has.
\<close>

definition createVertexBufferBindingImpl :: "ptr \<Rightarrow> ManagerState \<Rightarrow> ptr \<times> ManagerState" where
  "createVertexBufferBindingImpl p s = (p, s\<lparr>liveBindings := finsert p (liveBindings s)\<rparr>)"

text \<open>
  Modelled from the spec: \<open>destroyVertexBufferBindingImpl\<close> (line 83), body absent:
  "destroys a VertexBufferBinding", the release of the object.
\<close>

definition destroyVertexBufferBindingImpl :: "ptr \<Rightarrow> ManagerState \<Rightarrow> ManagerState" where
  "destroyVertexBufferBindingImpl binding s = s\<lparr>liveBindings := liveBindings s |-| {|binding|}\<rparr>"

text \<open>
  Modelled from the spec: \<open>createVertexBufferBinding\<close> (line 130), body absent:
  "creates and registers a new binding; exclusively owned by this manager thereafter".
\<close>

definition createVertexBufferBinding :: "ptr \<Rightarrow> ManagerState \<Rightarrow> ptr \<times> ManagerState" where
  "createVertexBufferBinding p s =
     (case createVertexBufferBindingImpl p s of
        (ret, s') \<Rightarrow>
          (ret, s'\<lparr>manager := (manager s')
                    \<lparr>mVertexBufferBindings := finsert ret (mVertexBufferBindings (manager s'))\<rparr>\<rparr>))"

text \<open>
  Modelled from the spec: \<open>destroyVertexBufferBinding\<close> (line 132), body absent:
  "removes from registry and releases; fails (precondition violation) if \<open>binding\<close> was
  not created by this manager". A binding created by this manager and not yet destroyed
  is one that is in the registry.
\<close>

definition destroyVertexBufferBinding ::
  "ptr \<Rightarrow> ManagerState \<Rightarrow> (error + unit) \<times> ManagerState" where
  "destroyVertexBufferBinding binding s =
     (if binding |\<in>| mVertexBufferBindings (manager s)
      then (Inr (),
            destroyVertexBufferBindingImpl binding
              (s\<lparr>manager := (manager s)
                  \<lparr>mVertexBufferBindings := mVertexBufferBindings (manager s) |-| {|binding|}\<rparr>\<rparr>))
      else (Inl InvariantViolation, s))"

text \<open>
  Modelled from the spec: \<open>destroyAllBindings\<close> (line 75), body absent: "destroys and
  clears every registered binding". The loop visits the registry in the order of a
  \<open>set\<close>, ascending, and releases each binding; then the registry is cleared.
\<close>

fun destroyBindings :: "ptr list \<Rightarrow> ManagerState \<Rightarrow> ManagerState" where
  "destroyBindings [] s = s"
| "destroyBindings (binding # bs) s = destroyBindings bs (destroyVertexBufferBindingImpl binding s)"

definition destroyAllBindings :: "ManagerState \<Rightarrow> ManagerState" where
  "destroyAllBindings s =
     (let s' = destroyBindings (sorted_list_of_fset (mVertexBufferBindings (manager s))) s
      in s'\<lparr>manager := (manager s')\<lparr>mVertexBufferBindings := {||}\<rparr>\<rparr>)"

text \<open>
  Modelled from the spec: the registry invariant, "every buffer/binding currently alive
  through this manager appears exactly once in its registry", in the direction the
  round trip needs: the registry holds no dangling pointer, every registered binding is
  an object that exists. The constructor establishes this and every operation above
  keeps it.
\<close>

definition bindings_registered_live :: "ManagerState \<Rightarrow> bool" where
  "bindings_registered_live s = (mVertexBufferBindings (manager s) |\<subseteq>| liveBindings s)"

text \<open>
  The states a manager can be in: it is constructed, and then bindings are created (each
  at an address no live binding has), destroyed one by one, or destroyed all at once.
\<close>

inductive reachable :: "ManagerState \<Rightarrow> bool" where
  constructed: "reachable (HardwareBufferManagerBase_ctor heap)"
| created: "reachable s \<Longrightarrow> p |\<notin>| liveBindings s \<Longrightarrow> reachable (snd (createVertexBufferBinding p s))"
| destroyed: "reachable s \<Longrightarrow> reachable (snd (destroyVertexBufferBinding binding s))"
| destroyed_all: "reachable s \<Longrightarrow> reachable (destroyAllBindings s)"

section \<open>The wrapper forwards\<close>

lemma invoke_HardwareBufferManager_forward:
  "invoke_HardwareBufferManager B c w =
     (fst (invoke_Base B c (mImpl w)), w\<lparr>mImpl := snd (invoke_Base B c (mImpl w))\<rparr>)"
  by (cases c)
     (simp_all add: returned_def HardwareBufferManager_createVertexBuffer_def
        HardwareBufferManager_createIndexBuffer_def
        HardwareBufferManager_createVertexDeclaration_def
        HardwareBufferManager_createVertexBufferBinding_def
        HardwareBufferManager_destroyVertexBufferBinding_def
        HardwareBufferManager_notifyVertexBufferDestroyed_def
        HardwareBufferManager_notifyIndexBufferDestroyed_def or_default_def
        HardwareBufferManagerBase_streamOut_default_def
        HardwareBufferManager_streamOut_default_def split: prod.split sum.split)

text \<open>
  The same holds for any sequence of calls: the wrapper's results are the backend's, one
  by one, and the backend ends in the state the direct calls leave it in.
\<close>

lemma run_HardwareBufferManager_forward:
  "run_HardwareBufferManager B cs w =
     (fst (run_Base B cs (mImpl w)), w\<lparr>mImpl := snd (run_Base B cs (mImpl w))\<rparr>)"
proof (induction cs arbitrary: w)
  case Nil
  show ?case by simp
next
  case (Cons c cs)
  show ?case
    by (simp add: invoke_HardwareBufferManager_forward Cons.IH split: prod.split)
qed

text \<open>
  C1. For every public operation of the wrapper (\<open>createVertexBuffer\<close>,
  \<open>createIndexBuffer\<close>, \<open>createVertexDeclaration\<close>, \<open>createVertexBufferBinding\<close>,
  \<open>destroyVertexBufferBinding\<close>, \<open>_notifyVertexBufferDestroyed\<close>,
  \<open>_notifyIndexBufferDestroyed\<close>), every argument list, every backend and every state of
  the wrapper, the call on the wrapper returns what the same call on the backend object
  behind \<open>mImpl\<close> returns (value or error), and leaves that backend object in the state
  the direct call leaves it in. The statement holds whatever the wrapper's own fields
  are, so nothing of the wrapper's own state is consulted and no check is added.
\<close>

theorem C1_wrapper_forwards:
  "fst (invoke_HardwareBufferManager B c w) = fst (invoke_Base B c (mImpl w)) \<and>
   mImpl (snd (invoke_HardwareBufferManager B c w)) = snd (invoke_Base B c (mImpl w))"
  by (simp add: invoke_HardwareBufferManager_forward)

text \<open>
  An instance: a backend that counts its objects and hands out the count as the handle,
  refusing an empty vertex buffer. The three-argument \<open>createVertexBuffer\<close> on a wrapper
  around the backend in state 5 returns handle 5 and leaves the backend in state 6.
\<close>

theorem C1_wrapper_forwards_witness:
  "(let B = \<lparr>impl_createVertexBuffer =
               (\<lambda>vertexSize numVerts usage streamOut b.
                  if vertexSize * numVerts = 0 then (Inl AllocationError, b) else (Inr b, Suc b)),
             impl_createIndexBuffer = (\<lambda>itype numIndexes usage b. (Inr b, Suc b)),
             impl_createVertexDeclaration = (\<lambda>b. (Inr b, Suc b)),
             impl_createVertexBufferBinding = (\<lambda>b. (Inr b, Suc b)),
             impl_destroyVertexBufferBinding = (\<lambda>binding b. (Inr (), b - 1)),
             impl_notifyVertexBufferDestroyed = (\<lambda>buf b. (Inr (), b - 1)),
             impl_notifyIndexBufferDestroyed = (\<lambda>buf b. (Inr (), b - 1))\<rparr>;
        c = CreateVertexBuffer 32 100 0 None;
        w = \<lparr>mVertexBuffers = {||}, mIndexBuffers = {||}, mVertexBufferBindings = {||},
             mImpl = (5::nat)\<rparr>
    in fst (invoke_HardwareBufferManager B c w) = Inr (Handle 5) \<and>
       fst (invoke_Base B c (mImpl w)) = Inr (Handle 5) \<and>
       mImpl (snd (invoke_HardwareBufferManager B c w)) = 6 \<and>
       snd (invoke_Base B c (mImpl w)) = 6)"
  using C1_wrapper_forwards
    [of "\<lparr>impl_createVertexBuffer =
               (\<lambda>vertexSize numVerts usage streamOut b.
                  if vertexSize * numVerts = 0 then (Inl AllocationError, b) else (Inr b, Suc b)),
             impl_createIndexBuffer = (\<lambda>itype numIndexes usage b. (Inr b, Suc b)),
             impl_createVertexDeclaration = (\<lambda>b. (Inr b, Suc b)),
             impl_createVertexBufferBinding = (\<lambda>b. (Inr b, Suc b)),
             impl_destroyVertexBufferBinding = (\<lambda>binding b. (Inr (), b - 1)),
             impl_notifyVertexBufferDestroyed = (\<lambda>buf b. (Inr (), b - 1)),
             impl_notifyIndexBufferDestroyed = (\<lambda>buf b. (Inr (), b - 1))\<rparr>"
        "CreateVertexBuffer 32 100 0 None"
        "\<lparr>mVertexBuffers = {||}, mIndexBuffers = {||}, mVertexBufferBindings = {||},
          mImpl = (5::nat)\<rparr>"]
  by (simp add: returned_def or_default_def HardwareBufferManagerBase_streamOut_default_def
      HardwareBufferManager_streamOut_default_def HardwareBufferManager_createVertexBuffer_def)

text \<open>
  C10. Every operation invoked on the wrapper leaves the wrapper's own inherited
  registries (\<open>mVertexBuffers\<close>, \<open>mIndexBuffers\<close>, \<open>mVertexBufferBindings\<close>) as they were,
  and so does every sequence of operations: only the backend object changes. The
  registries of a wrapper are empty sets when it is constructed, so they are empty for
  its whole lifetime.
\<close>

theorem C10_own_registries_unchanged:
  "mVertexBuffers (snd (invoke_HardwareBufferManager B c w)) = mVertexBuffers w \<and>
   mIndexBuffers (snd (invoke_HardwareBufferManager B c w)) = mIndexBuffers w \<and>
   mVertexBufferBindings (snd (invoke_HardwareBufferManager B c w)) = mVertexBufferBindings w \<and>
   mVertexBuffers (snd (run_HardwareBufferManager B cs w)) = mVertexBuffers w \<and>
   mIndexBuffers (snd (run_HardwareBufferManager B cs w)) = mIndexBuffers w \<and>
   mVertexBufferBindings (snd (run_HardwareBufferManager B cs w)) = mVertexBufferBindings w"
  by (simp add: invoke_HardwareBufferManager_forward run_HardwareBufferManager_forward)

text \<open>
  An instance, with the counting backend: on a wrapper with empty registries a binding
  and a vertex buffer are created, the binding is destroyed and the buffer notifies its
  destruction. The four calls succeed, the backend's count goes from 5 to 7 and back,
  and the wrapper's registries are still empty.
\<close>

theorem C10_own_registries_unchanged_witness:
  "(let B = \<lparr>impl_createVertexBuffer =
               (\<lambda>vertexSize numVerts usage streamOut b.
                  if vertexSize * numVerts = 0 then (Inl AllocationError, b) else (Inr b, Suc b)),
             impl_createIndexBuffer = (\<lambda>itype numIndexes usage b. (Inr b, Suc b)),
             impl_createVertexDeclaration = (\<lambda>b. (Inr b, Suc b)),
             impl_createVertexBufferBinding = (\<lambda>b. (Inr b, Suc b)),
             impl_destroyVertexBufferBinding = (\<lambda>binding b. (Inr (), b - 1)),
             impl_notifyVertexBufferDestroyed = (\<lambda>buf b. (Inr (), b - 1)),
             impl_notifyIndexBufferDestroyed = (\<lambda>buf b. (Inr (), b - 1))\<rparr>;
        w = \<lparr>mVertexBuffers = {||}, mIndexBuffers = {||}, mVertexBufferBindings = {||},
             mImpl = (5::nat)\<rparr>;
        cs = [CreateVertexBufferBinding, CreateVertexBuffer 32 100 0 None,
              DestroyVertexBufferBinding 5, NotifyVertexBufferDestroyed 6]
    in fst (run_HardwareBufferManager B cs w) =
         [Inr (Handle 5), Inr (Handle 6), Inr Void, Inr Void] \<and>
       snd (run_HardwareBufferManager B cs w) = w)"
  using C10_own_registries_unchanged
    [of "\<lparr>impl_createVertexBuffer =
               (\<lambda>vertexSize numVerts usage streamOut b.
                  if vertexSize * numVerts = 0 then (Inl AllocationError, b) else (Inr b, Suc b)),
             impl_createIndexBuffer = (\<lambda>itype numIndexes usage b. (Inr b, Suc b)),
             impl_createVertexDeclaration = (\<lambda>b. (Inr b, Suc b)),
             impl_createVertexBufferBinding = (\<lambda>b. (Inr b, Suc b)),
             impl_destroyVertexBufferBinding = (\<lambda>binding b. (Inr (), b - 1)),
             impl_notifyVertexBufferDestroyed = (\<lambda>buf b. (Inr (), b - 1)),
             impl_notifyIndexBufferDestroyed = (\<lambda>buf b. (Inr (), b - 1))\<rparr>"
        CreateVertexBufferBinding
        "\<lparr>mVertexBuffers = {||}, mIndexBuffers = {||}, mVertexBufferBindings = {||},
          mImpl = (5::nat)\<rparr>"
        "[CreateVertexBufferBinding, CreateVertexBuffer 32 100 0 None,
          DestroyVertexBufferBinding 5, NotifyVertexBufferDestroyed 6]"]
  by (simp add: returned_def or_default_def HardwareBufferManager_streamOut_default_def
      HardwareBufferManager_createVertexBuffer_def
      HardwareBufferManager_createVertexBufferBinding_def
      HardwareBufferManager_destroyVertexBufferBinding_def
      HardwareBufferManager_notifyVertexBufferDestroyed_def)

section \<open>The declared registries\<close>

text \<open>
  What the declarations of the base class say about its registries. There is one for
  vertex buffers (\<open>mVertexBuffers\<close>), one for index buffers (\<open>mIndexBuffers\<close>) and one
  for vertex buffer bindings (\<open>mVertexBufferBindings\<close>), and these three are all its
  data members. For constant buffers the class declares the set type
  \<open>ConstantBufferList\<close> and no data member of that type. What the registries hold at
  run time is decided by method bodies that the header does not have.
\<close>

lemma no_constant_buffer_registry:
  "registries HardwareBufferManagerBase_decls HardwareConstantBuffer = []"
  by (simp add: registries_def HardwareBufferManagerBase_decls_def)

lemma declared_registries:
  "registries HardwareBufferManagerBase_decls HardwareVertexBuffer = [''mVertexBuffers''] \<and>
   registries HardwareBufferManagerBase_decls HardwareIndexBuffer = [''mIndexBuffers''] \<and>
   registries HardwareBufferManagerBase_decls VertexBufferBinding = [''mVertexBufferBindings''] \<and>
   data_members HardwareBufferManagerBase_decls =
     [''mVertexBuffers'', ''mIndexBuffers'', ''mVertexBufferBindings''] \<and>
   set_types HardwareBufferManagerBase_decls HardwareConstantBuffer = [''ConstantBufferList'']"
  by (simp add: registries_def HardwareBufferManagerBase_decls_def)

section \<open>Teardown order\<close>

lemma registry_steps_eq:
  "registry_steps =
     [Member ''HardwareBufferManagerBase'' ''mVertexBuffers'',
      Member ''HardwareBufferManagerBase'' ''mIndexBuffers'',
      Member ''HardwareBufferManagerBase'' ''mVertexBufferBindings'']"
  by (simp add: registry_steps_def registries_def HardwareBufferManagerBase_decls_def)

lemma destruction_order_Base:
  "destruction_order HardwareBufferManagerBase_class =
     Body ''HardwareBufferManagerBase'' # rev registry_steps"
  by (simp add: destruction_order_def HardwareBufferManagerBase_class_def registry_steps_eq
        HardwareBufferManagerBase_decls_def)

lemma registries_outlive_Base:
  "registries_outlive (destruction_order HardwareBufferManagerBase_class)"
  by (simp add: destruction_order_Base) (simp add: registry_steps_eq)

lemma registry_steps_in_Base:
  "set registry_steps \<subseteq> set (destruction_order HardwareBufferManagerBase_class)"
  by (auto simp add: destruction_order_Base)

text \<open>Steps put in front of a safe teardown that ends with all the registries keep it safe.\<close>

lemma registries_outlive_append:
  "set registry_steps \<subseteq> set es \<Longrightarrow> registries_outlive es \<Longrightarrow> registries_outlive (xs @ es)"
  by (induction xs) auto

text \<open>
  The base class is the first base of the wrapper and the only base of a backend, so the
  teardown of either ends with the teardown of the base class.
\<close>

lemma destruction_order_wrapper:
  "\<exists>xs. destruction_order (HardwareBufferManager_class bs ds) =
     xs @ destruction_order HardwareBufferManagerBase_class"
  by (simp add: destruction_order_def HardwareBufferManager_class_def Module_class_def)

lemma destruction_order_Backend:
  "\<exists>xs. destruction_order (Backend_class n ds) =
     xs @ destruction_order HardwareBufferManagerBase_class"
  by (simp add: destruction_order_def Backend_class_def)

text \<open>
  Were the base list of the wrapper written the other way round, a member of
  \<open>Module\<close> would be destroyed after the registries: the property rests on the order
  the header has.
\<close>

lemma reversed_bases_unsafe:
  "\<not> registries_outlive (destruction_order
      (Class ''HardwareBufferManager''
         [Module_class [] [DataMember ''T*'' ''_instance''], HardwareBufferManagerBase_class]
         HardwareBufferManager_decls))"
  by (simp add: destruction_order_def Module_class_def
      HardwareBufferManagerBase_class_def HardwareBufferManagerBase_decls_def
      HardwareBufferManager_decls_def registry_steps_eq)

text \<open>
  C9. The registries are the first-declared data members of the base class, and the
  base class is the first base of the owning object. So in the teardown of the base
  class alone, of the wrapper (whatever \<open>Module\<close> holds) and of any backend subclass
  (whatever members it adds), the registries are destroyed last: every destructor body
  and every destruction of another member, the steps that can notify the manager, run
  while all registries still exist.
\<close>

theorem C9_registries_destroyed_last:
  "data_members HardwareBufferManagerBase_decls =
     [''mVertexBuffers'', ''mIndexBuffers'', ''mVertexBufferBindings''] \<and>
   registries_outlive (destruction_order HardwareBufferManagerBase_class) \<and>
   registries_outlive (destruction_order (HardwareBufferManager_class bs ds)) \<and>
   registries_outlive (destruction_order (Backend_class n ds'))"
proof -
  have members: "data_members HardwareBufferManagerBase_decls =
      [''mVertexBuffers'', ''mIndexBuffers'', ''mVertexBufferBindings'']"
    by (simp add: HardwareBufferManagerBase_decls_def)
  obtain xs where w: "destruction_order (HardwareBufferManager_class bs ds) =
      xs @ destruction_order HardwareBufferManagerBase_class"
    using destruction_order_wrapper by blast
  obtain ys where b: "destruction_order (Backend_class n ds') =
      ys @ destruction_order HardwareBufferManagerBase_class"
    using destruction_order_Backend by blast
  have "registries_outlive (xs @ destruction_order HardwareBufferManagerBase_class)"
    by (rule registries_outlive_append [OF registry_steps_in_Base registries_outlive_Base])
  moreover have "registries_outlive (ys @ destruction_order HardwareBufferManagerBase_class)"
    by (rule registries_outlive_append [OF registry_steps_in_Base registries_outlive_Base])
  ultimately show ?thesis
    using members registries_outlive_Base w b by simp
qed

text \<open>
  An instance: the wrapper, with a \<open>Module\<close> that holds one pointer. Its teardown, step
  by step, ends with the three registries.
\<close>

theorem C9_registries_destroyed_last_witness:
  "destruction_order (HardwareBufferManager_class [] [DataMember ''T*'' ''_instance'']) =
     [Body ''HardwareBufferManager'',
      Member ''HardwareBufferManager'' ''mImpl'',
      Body ''Module<HardwareBufferManager>'',
      Member ''Module<HardwareBufferManager>'' ''_instance'',
      Body ''HardwareBufferManagerBase'',
      Member ''HardwareBufferManagerBase'' ''mVertexBufferBindings'',
      Member ''HardwareBufferManagerBase'' ''mIndexBuffers'',
      Member ''HardwareBufferManagerBase'' ''mVertexBuffers''] \<and>
   registries_outlive
     (destruction_order (HardwareBufferManager_class [] [DataMember ''T*'' ''_instance'']))"
  using C9_registries_destroyed_last [of "[]" "[DataMember ''T*'' ''_instance'']" "''X''" "[]"]
  by (simp add: destruction_order_def HardwareBufferManager_class_def Module_class_def
      HardwareBufferManagerBase_class_def HardwareBufferManagerBase_decls_def
      HardwareBufferManager_decls_def)

section \<open>Vertex buffer bindings\<close>

lemma destroyBindings_effect:
  "liveBindings (destroyBindings bs s) = liveBindings s |-| fset_of_list bs \<and>
   manager (destroyBindings bs s) = manager s"
  by (induction bs arbitrary: s) (auto simp add: destroyVertexBufferBindingImpl_def)

lemma destroyAllBindings_effect:
  "destroyAllBindings s =
     \<lparr>manager = (manager s)\<lparr>mVertexBufferBindings := {||}\<rparr>,
      liveBindings = liveBindings s |-| mVertexBufferBindings (manager s)\<rparr>"
  by (simp add: destroyAllBindings_def Let_def destroyBindings_effect sorted_list_of_fset_simps)

text \<open>The registry never holds a dangling pointer.\<close>

lemma bindings_registered_live_ctor:
  "bindings_registered_live (HardwareBufferManagerBase_ctor heap)"
  by (simp add: bindings_registered_live_def HardwareBufferManagerBase_ctor_def)

lemma bindings_registered_live_create:
  "bindings_registered_live s \<Longrightarrow> bindings_registered_live (snd (createVertexBufferBinding p s))"
  by (auto simp add: bindings_registered_live_def createVertexBufferBinding_def
      createVertexBufferBindingImpl_def)

lemma bindings_registered_live_destroy:
  "bindings_registered_live s \<Longrightarrow>
   bindings_registered_live (snd (destroyVertexBufferBinding binding s))"
  by (auto simp add: bindings_registered_live_def destroyVertexBufferBinding_def
      destroyVertexBufferBindingImpl_def)

lemma bindings_registered_live_destroyAll:
  "bindings_registered_live (destroyAllBindings s)"
  by (simp add: bindings_registered_live_def destroyAllBindings_effect)

lemma reachable_bindings_registered_live:
  "reachable s \<Longrightarrow> bindings_registered_live s"
proof (induction rule: reachable.induct)
  case (constructed heap)
  show ?case by (rule bindings_registered_live_ctor)
next
  case (created s p)
  then show ?case by (simp add: bindings_registered_live_create)
next
  case (destroyed s binding)
  then show ?case by (simp add: bindings_registered_live_destroy)
next
  case (destroyed_all s)
  show ?case by (rule bindings_registered_live_destroyAll)
qed

text \<open>
  C4. In every state of the manager whose registry holds live bindings only (every
  reachable state is one), creating a binding (at whatever new address \<open>p\<close> the allocator gives) and destroying the returned
  binding at once succeeds and gives back the state before the creation: the binding
  registry, and the heap of bindings too, are as they were.
\<close>

theorem C4_create_destroy_roundtrip:
  assumes "bindings_registered_live s" and "p |\<notin>| liveBindings s"
  shows "destroyVertexBufferBinding (fst (createVertexBufferBinding p s))
           (snd (createVertexBufferBinding p s)) = (Inr (), s) \<and>
         mVertexBufferBindings (manager (snd (destroyVertexBufferBinding
             (fst (createVertexBufferBinding p s)) (snd (createVertexBufferBinding p s))))) =
           mVertexBufferBindings (manager s)"
proof -
  from assms have "p |\<notin>| mVertexBufferBindings (manager s)"
    by (auto simp add: bindings_registered_live_def)
  with assms(2) show ?thesis
    by (simp add: createVertexBufferBinding_def createVertexBufferBindingImpl_def
        destroyVertexBufferBinding_def destroyVertexBufferBindingImpl_def)
qed

text \<open>
  An instance: a manager that already holds the binding at address 10; a second binding
  is created at address 20 and destroyed.
\<close>

theorem C4_create_destroy_roundtrip_witness:
  "(let s = snd (createVertexBufferBinding 10 (HardwareBufferManagerBase_ctor {||}))
    in bindings_registered_live s \<and> 20 |\<notin>| liveBindings s \<and>
       mVertexBufferBindings (manager s) = {|10|} \<and>
       fst (createVertexBufferBinding 20 s) = 20 \<and>
       mVertexBufferBindings (manager (snd (createVertexBufferBinding 20 s))) = {|20, 10|} \<and>
       destroyVertexBufferBinding (fst (createVertexBufferBinding 20 s))
         (snd (createVertexBufferBinding 20 s)) = (Inr (), s))"
  using C4_create_destroy_roundtrip
    [of "snd (createVertexBufferBinding 10 (HardwareBufferManagerBase_ctor {||}))" 20]
  by (simp add: bindings_registered_live_def createVertexBufferBinding_def
      createVertexBufferBindingImpl_def HardwareBufferManagerBase_ctor_def)

text \<open>
  C5. Whatever the number of registered bindings, \<open>destroyAllBindings\<close> leaves the
  binding registry empty and releases every binding that was registered; afterwards
  \<open>destroyVertexBufferBinding\<close> on any formerly registered binding fails with an
  invariant violation (and changes nothing).
\<close>

theorem C5_destroyAllBindings:
  "mVertexBufferBindings (manager (destroyAllBindings s)) = {||} \<and>
   liveBindings (destroyAllBindings s) = liveBindings s |-| mVertexBufferBindings (manager s) \<and>
   (\<forall>binding. binding |\<in>| mVertexBufferBindings (manager s) \<longrightarrow>
      destroyVertexBufferBinding binding (destroyAllBindings s) =
        (Inl InvariantViolation, destroyAllBindings s))"
  by (simp add: destroyAllBindings_effect destroyVertexBufferBinding_def)

text \<open>
  The spec's scenario: three bindings are created (at addresses 10, 20 and 30), then
  \<open>destroyAllBindings\<close> is called; the registry and the heap are empty, and destroying
  any of the three fails.
\<close>

theorem C5_destroyAllBindings_witness:
  "(let s = snd (createVertexBufferBinding 30 (snd (createVertexBufferBinding 20
              (snd (createVertexBufferBinding 10 (HardwareBufferManagerBase_ctor {||}))))));
        s' = destroyAllBindings s
    in mVertexBufferBindings (manager s) = {|30, 20, 10|} \<and>
       mVertexBufferBindings (manager s') = {||} \<and>
       liveBindings s' = {||} \<and>
       destroyVertexBufferBinding 10 s' = (Inl InvariantViolation, s') \<and>
       destroyVertexBufferBinding 20 s' = (Inl InvariantViolation, s') \<and>
       destroyVertexBufferBinding 30 s' = (Inl InvariantViolation, s'))"
  using C5_destroyAllBindings
    [of "snd (createVertexBufferBinding 30 (snd (createVertexBufferBinding 20
              (snd (createVertexBufferBinding 10 (HardwareBufferManagerBase_ctor {||}))))))"]
  by (simp add: createVertexBufferBinding_def createVertexBufferBindingImpl_def
      HardwareBufferManagerBase_ctor_def Let_def)

text \<open>
  C6. For every binding that is not registered with the manager,
  \<open>destroyVertexBufferBinding\<close> fails with an invariant violation and leaves the whole
  state, the binding registry in particular, as it was.
\<close>

theorem C6_destroy_unregistered:
  "binding |\<notin>| mVertexBufferBindings (manager s) \<Longrightarrow>
   destroyVertexBufferBinding binding s = (Inl InvariantViolation, s) \<and>
   mVertexBufferBindings (manager (snd (destroyVertexBufferBinding binding s))) =
     mVertexBufferBindings (manager s)"
  by (simp add: destroyVertexBufferBinding_def)

text \<open>
  An instance: the manager holds the binding at address 10; the pointer 99 was never
  given out.
\<close>

theorem C6_destroy_unregistered_witness:
  "(let s = snd (createVertexBufferBinding 10 (HardwareBufferManagerBase_ctor {||}))
    in 99 |\<notin>| mVertexBufferBindings (manager s) \<and>
       destroyVertexBufferBinding 99 s = (Inl InvariantViolation, s) \<and>
       mVertexBufferBindings (manager (snd (destroyVertexBufferBinding 99 s))) = {|10|})"
  using C6_destroy_unregistered
    [of 99 "snd (createVertexBufferBinding 10 (HardwareBufferManagerBase_ctor {||}))"]
  by (simp add: createVertexBufferBinding_def createVertexBufferBindingImpl_def
      HardwareBufferManagerBase_ctor_def)

end
